theory Spec2Isabelle
  imports Main
begin

section \<open>Freshness comparator (src/common/utils.ts)\<close>

text \<open>
  Timestamps are modification times in milliseconds. They are modelled as integers: for
  every integer of magnitude below \<open>2 ^ 53\<close> the floating-point quotient by 2000 has the
  same integer part as the exact quotient, so the model is exact on them. The operator
  \<open>~~\<close> is JavaScript's double bitwise NOT: it drops the fraction (rounding towards zero)
  and then reduces the integer to a signed 32-bit value (ToInt32).
\<close>

datatype verdict = BASE_IS_NEW | TARGET_IS_NEW | EVEN

datatype error =
    Unexpected_error
  | File_not_exist string

definition resolution :: int where
  "resolution = 2000"

definition integer_part_of_quotient :: "int \<Rightarrow> int \<Rightarrow> int" where
  \<comment> \<open>the integer part of \<open>x / r\<close> for a positive \<open>r\<close>, rounding towards zero\<close>
  "integer_part_of_quotient x r = (if 0 \<le> x then x div r else - ((- x) div r))"

definition ToInt32 :: "int \<Rightarrow> int" where
  \<comment> \<open>reduction modulo \<open>2 ^ 32\<close> into the range \<open>- 2 ^ 31 ..< 2 ^ 31\<close>\<close>
  "ToInt32 n = (n + 2147483648) mod 4294967296 - 2147483648"

definition double_tilde_quotient :: "int \<Rightarrow> int \<Rightarrow> int" where
  \<comment> \<open>\<open>~~(x / r)\<close>\<close>
  "double_tilde_quotient x r = ToInt32 (integer_part_of_quotient x r)"

definition compareMTime :: "int \<Rightarrow> int \<Rightarrow> error + verdict" where
  "compareMTime baseMTime targetMTime =
     (let truncatedBaseMTime = double_tilde_quotient baseMTime resolution * resolution;
          truncatedTargetMTime = double_tilde_quotient targetMTime resolution * resolution
      in if truncatedBaseMTime = truncatedTargetMTime then Inr EVEN
         else if truncatedBaseMTime > truncatedTargetMTime then Inr BASE_IS_NEW
         else if truncatedBaseMTime < truncatedTargetMTime then Inr TARGET_IS_NEW
         else Inl Unexpected_error)"

section \<open>Files and document entries\<close>

text \<open>
  The declarations of \<open>UXFileInfoStub\<close>, \<open>UXFileInfo\<close>, \<open>MetaEntry\<close> and \<open>LoadedEntry\<close>
  live in the library's \<open>types.ts\<close>; the records below carry the fields the engine reads.
  A \<open>UXFileInfo\<close> is a stub whose \<open>body\<close> is present. The modification times are
  declared as numbers (they are handed to \<open>markChangesAreSame\<close>, which takes numbers), so
  the defaults \<open>?? 0\<close> of \<open>compareFileFreshness\<close> never fire and are not modelled. A
  \<open>LoadedEntry\<close> is a \<open>MetaEntry\<close> together with its content.
\<close>

record UXStat =
  st_mtime :: int
  st_ctime :: int
  st_size :: nat

record UXFileInfoStub =
  ux_path :: string
  ux_stat :: UXStat
  ux_isInternal :: bool
  ux_isFolder :: bool
  ux_body :: "string option"

record MetaEntry =
  doc_id :: string
  doc_rev :: "string option"
  doc_path :: string
  doc_mtime :: int
  doc_ctime :: int
  doc_deleted :: bool
  doc__deleted :: bool

record LoadedEntry = MetaEntry +
  doc_data :: "string list"

datatype file_or_entry =
    File UXFileInfoStub
  | Entry MetaEntry

datatype key_source =
    Path string
  | Object file_or_entry

definition path_of :: "file_or_entry \<Rightarrow> string" where
  "path_of obj = (case obj of File f \<Rightarrow> ux_path f | Entry e \<Rightarrow> doc_path e)"

section \<open>Equivalence tracker (src/common/utils.ts)\<close>

text \<open>
  \<open>sameChangePairs\<close> is a persistent map from keys to lists of timestamps; the registry
  is passed explicitly and returned updated. \<open>stripAllPrefixes\<close> belongs to the library
  and is a parameter.
\<close>

type_synonym sameChangePairs = "string \<rightharpoonup> int list"

definition sameChangePairs_get :: "sameChangePairs \<Rightarrow> string \<Rightarrow> int list" where
  \<comment> \<open>\<open>sameChangePairs.get(key, []) || []\<close>\<close>
  "sameChangePairs_get reg key = (case reg key of None \<Rightarrow> [] | Some pairs \<Rightarrow> pairs)"

definition new_Set :: "int list \<Rightarrow> int list" where
  \<comment> \<open>\<open>[...new Set(xs)]\<close>: the elements in the order of their first occurrence\<close>
  "new_Set xs = fold (\<lambda>x acc. if x \<in> set acc then acc else acc @ [x]) xs []"

definition getKey :: "(string \<Rightarrow> string) \<Rightarrow> key_source \<Rightarrow> string" where
  "getKey stripAllPrefixes file =
     (case file of Path s \<Rightarrow> s | Object obj \<Rightarrow> stripAllPrefixes (path_of obj))"

definition markChangesAreSame ::
  "(string \<Rightarrow> string) \<Rightarrow> key_source \<Rightarrow> int \<Rightarrow> int \<Rightarrow> sameChangePairs
     \<Rightarrow> bool option \<times> sameChangePairs" where
  "markChangesAreSame stripAllPrefixes file mtime1 mtime2 reg =
     (if mtime1 = mtime2 then (Some True, reg)
      else
        let key = getKey stripAllPrefixes file;
            pairs = sameChangePairs_get reg key
        in if list_ex (\<lambda>e. e = mtime1 \<or> e = mtime2) pairs
           then (None, reg(key \<mapsto> new_Set (pairs @ [mtime1, mtime2])))
           else (None, reg(key \<mapsto> [mtime1, mtime2])))"

definition unmarkChanges ::
  "(string \<Rightarrow> string) \<Rightarrow> key_source \<Rightarrow> sameChangePairs \<Rightarrow> sameChangePairs" where
  "unmarkChanges stripAllPrefixes file reg =
     (let key = getKey stripAllPrefixes file in reg(key := None))"

definition isMarkedAsSameChanges ::
  "(string \<Rightarrow> string) \<Rightarrow> key_source \<Rightarrow> int list \<Rightarrow> sameChangePairs \<Rightarrow> verdict option" where
  \<comment> \<open>\<open>None\<close> is the \<open>undefined\<close> the function returns when it falls through\<close>
  "isMarkedAsSameChanges stripAllPrefixes file mtimes reg =
     (let key = getKey stripAllPrefixes file;
          pairs = sameChangePairs_get reg key
      in if list_all (\<lambda>e. e \<in> set pairs) mtimes then Some EVEN else None)"

definition compareFileFreshness ::
  "(string \<Rightarrow> string) \<Rightarrow> sameChangePairs \<Rightarrow> file_or_entry option \<Rightarrow> file_or_entry option
     \<Rightarrow> error + verdict" where
  "compareFileFreshness stripAllPrefixes reg baseFile checkTarget =
     (case (baseFile, checkTarget) of
        (None, None) \<Rightarrow> Inr EVEN
      | (None, Some _) \<Rightarrow> Inr TARGET_IS_NEW
      | (Some _, None) \<Rightarrow> Inr BASE_IS_NEW
      | (Some base, Some target) \<Rightarrow>
          let modifiedBase =
                (case base of File f \<Rightarrow> st_mtime (ux_stat f) | Entry e \<Rightarrow> doc_mtime e);
              modifiedTarget =
                (case target of File f \<Rightarrow> st_mtime (ux_stat f) | Entry e \<Rightarrow> doc_mtime e)
          in if modifiedBase \<noteq> 0 \<and> modifiedTarget \<noteq> 0
                \<and> isMarkedAsSameChanges stripAllPrefixes (Object base)
                     [modifiedBase, modifiedTarget] reg \<noteq> None
             then Inr EVEN
             else compareMTime modifiedBase modifiedTarget)"

section \<open>Reconciliation engine (src/modules/core/ModuleFileHandler.ts)\<close>

text \<open>
  The storage service, the document service, the settings and the library helpers are
  external to the engine. Their answers are the fields of one record; the requests the
  engine sends to them that change something are recorded, in order, as a list of
  actions. Within one call every answer is obtained before the first such request, so
  the answers do not depend on the actions recorded so far. Log messages are left out.
  \<open>readStubContent\<close> answers with the file and its body (\<open>None\<close> when there is no such
  file), and \<open>isDocContentSame\<close> is handed the \<open>body\<close> field of the file that was read.
  The helpers \<open>stripAllPrefixes\<close>, \<open>id2path_base\<close>, \<open>normalizePath\<close>, \<open>readContent\<close> and
  \<open>isDocContentSame\<close> are library functions and are taken as they come.
\<close>

datatype file_ref =
    PathRef string
  | StubRef UXFileInfoStub

datatype entry_or_path =
    MetaOf MetaEntry
  | PathOf string

datatype mode = Create | Modify

datatype action =
    QueueConflictCheckIfOpen string
  | DeleteVaultItem string
  | EnsureDir string
  | WriteFileAuto string string int int
  | Touched string
  | TriggerFileEvent mode string
  | DbDelete file_ref "string option"

record collaborators =
  getFileStub :: "string \<Rightarrow> UXFileInfoStub option"
  getStub :: "string \<Rightarrow> UXFileInfoStub option"
  readStubContent :: "UXFileInfoStub \<Rightarrow> UXFileInfoStub option"
  writeFileAuto :: "string \<Rightarrow> string \<Rightarrow> int \<Rightarrow> int \<Rightarrow> bool"
  fetchEntryMeta :: "file_ref \<Rightarrow> string option \<Rightarrow> bool \<Rightarrow> MetaEntry option"
  fetchEntry :: "file_ref \<Rightarrow> string option \<Rightarrow> bool \<Rightarrow> bool \<Rightarrow> LoadedEntry option"
  fetchEntryFromMeta :: "MetaEntry \<Rightarrow> LoadedEntry option"
  getConflictedRevs :: "file_ref \<Rightarrow> string list"
  db_delete :: "file_ref \<Rightarrow> string option \<Rightarrow> bool option"
  writeDocumentsIfConflicted :: bool
  stripAllPrefixes :: "string \<Rightarrow> string"
  id2path_base :: "string \<Rightarrow> MetaEntry \<Rightarrow> string"
  normalizePath :: "string \<Rightarrow> string"
  readContent :: "LoadedEntry \<Rightarrow> string"
  isDocContentSame :: "string \<Rightarrow> string option \<Rightarrow> bool"

definition mutates_storage :: "action \<Rightarrow> bool" where
  "mutates_storage a =
     (case a of
        DeleteVaultItem _ \<Rightarrow> True
      | EnsureDir _ \<Rightarrow> True
      | WriteFileAuto _ _ _ _ \<Rightarrow> True
      | Touched _ \<Rightarrow> True
      | TriggerFileEvent _ _ \<Rightarrow> True
      | QueueConflictCheckIfOpen _ \<Rightarrow> False
      | DbDelete _ _ \<Rightarrow> False)"

fun split_on :: "char \<Rightarrow> string \<Rightarrow> string list" where
  "split_on c [] = [[]]"
| "split_on c (x # xs) =
     (if x = c then [] # split_on c xs
      else (case split_on c xs of [] \<Rightarrow> [[x]] | w # ws \<Rightarrow> (x # w) # ws))"

fun join_with :: "string \<Rightarrow> string list \<Rightarrow> string" where
  "join_with sep [] = []"
| "join_with sep [w] = w"
| "join_with sep (w # ws) = w @ sep @ join_with sep ws"

definition id2path :: "collaborators \<Rightarrow> string \<Rightarrow> MetaEntry \<Rightarrow> string" where
  "id2path env ident entry =
     (let filename = id2path_base env ident entry;
          temp = split_on CHR '':'' filename;
          path = last temp;
          normalizedPath = normalizePath env path;
          fixedPath = join_with '':'' (butlast temp @ [normalizedPath])
      in fixedPath)"

definition getPath :: "collaborators \<Rightarrow> MetaEntry \<Rightarrow> string" where
  "getPath env entry = id2path env (doc_id entry) entry"

definition resolve_file :: "collaborators \<Rightarrow> file_ref option \<Rightarrow> UXFileInfoStub option" where
  \<comment> \<open>\<open>typeof info === "string" ? this.storage.getFileStub(info) : info\<close>\<close>
  "resolve_file env info =
     (case info of
        None \<Rightarrow> None
      | Some (PathRef p) \<Rightarrow> getFileStub env p
      | Some (StubRef f) \<Rightarrow> Some f)"

definition readFileFromStub :: "collaborators \<Rightarrow> UXFileInfoStub \<Rightarrow> error + UXFileInfoStub" where
  "readFileFromStub env f =
     (if ux_body f \<noteq> None then Inr f
      else (case readStubContent env f of
              None \<Rightarrow> Inl (File_not_exist (ux_path f))
            | Some readFile \<Rightarrow> Inr readFile))"

definition deleteFileFromDB :: "collaborators \<Rightarrow> file_ref \<Rightarrow> bool option \<times> action list" where
  "deleteFileFromDB env info =
     (case resolve_file env (Some info) of
        None \<Rightarrow> (Some False, [])
      | Some f \<Rightarrow>
          if ux_isInternal f then (Some False, [])
          else
            (case fetchEntry env (StubRef f) None True True of
               None \<Rightarrow> (Some False, [])
             | Some entry \<Rightarrow>
                 if doc_deleted entry \<or> doc__deleted entry then (Some False, [])
                 else
                   let conflictedRevs = getConflictedRevs env (StubRef f)
                   in if length conflictedRevs > 0
                      then (db_delete env (StubRef f) (doc_rev entry),
                            [DbDelete (StubRef f) (doc_rev entry)])
                      else (db_delete env (StubRef f) None, [DbDelete (StubRef f) None])))"

definition write_to_storage ::
  "collaborators \<Rightarrow> mode \<Rightarrow> string \<Rightarrow> string \<Rightarrow> LoadedEntry \<Rightarrow> sameChangePairs
     \<Rightarrow> (error + bool) \<times> action list \<times> sameChangePairs" where
  \<comment> \<open>the last five statements of \<open>dbToStorage\<close>: "Let's apply the changes"\<close>
  "write_to_storage env mode path docData docRead reg =
     (let ret = writeFileAuto env path docData (doc_ctime docRead) (doc_mtime docRead)
      in (Inr ret,
          [EnsureDir path,
           WriteFileAuto path docData (doc_ctime docRead) (doc_mtime docRead),
           Touched path,
           TriggerFileEvent mode path],
          reg))"

definition dbToStorage ::
  "collaborators \<Rightarrow> entry_or_path \<Rightarrow> file_ref option \<Rightarrow> bool \<Rightarrow> sameChangePairs
     \<Rightarrow> (error + bool) \<times> action list \<times> sameChangePairs" where
  "dbToStorage env entryInfo info force reg =
     (let file = resolve_file env info;
          mode = (if file = None then Create else Modify)
      in case (case entryInfo of
                 PathOf p \<Rightarrow> fetchEntryMeta env (PathRef p) None True
               | MetaOf e \<Rightarrow> fetchEntryMeta env (PathRef (doc_path e)) None True) of
           None \<Rightarrow> (Inr False, [], reg)
         | Some docEntry \<Rightarrow>
            let path = getPath env docEntry;
                revs = getConflictedRevs env (PathRef path)
            in
            if length revs > 0 \<and> \<not> writeDocumentsIfConflicted env
            then (Inr True, [QueueConflictCheckIfOpen path], reg)
            else
            let existDoc = getStub env path
            in
            if (case existDoc of None \<Rightarrow> False | Some d \<Rightarrow> ux_isFolder d)
            then (Inr True, [], reg)
            else
            let existOnDB = (\<not> (doc__deleted docEntry \<or> doc_deleted docEntry \<or> False));
                existOnStorage = (existDoc \<noteq> None)
            in
            if \<not> existOnDB \<and> \<not> existOnStorage then (Inr True, [], reg)
            else if \<not> existOnDB \<and> existOnStorage then (Inr True, [DeleteVaultItem path], reg)
            else
            case fetchEntryFromMeta env docEntry of
              None \<Rightarrow> (Inr False, [], reg)
            | Some docRead \<Rightarrow>
               let docData = readContent env docRead
               in
               case existDoc of
                 None \<Rightarrow> write_to_storage env mode path docData docRead reg
               | Some d \<Rightarrow>
                  if \<not> force
                  then
                    case compareFileFreshness (stripAllPrefixes env) reg
                           (Some (File d)) (Some (Entry docEntry)) of
                      Inl e \<Rightarrow> (Inl e, [], reg)
                    | Inr v \<Rightarrow>
                       let shouldApplied = (v \<noteq> EVEN)
                       in
                       if shouldApplied
                       then
                         case readFileFromStub env d of
                           Inl e \<Rightarrow> (Inl e, [], reg)
                         | Inr readFile \<Rightarrow>
                            if isDocContentSame env docData (ux_body readFile)
                            then
                              (Inr True, [],
                               snd (markChangesAreSame (stripAllPrefixes env)
                                      (Object (Entry (MetaEntry.truncate docRead)))
                                      (doc_mtime docRead) (st_mtime (ux_stat d)) reg))
                            else write_to_storage env mode path docData docRead reg
                       else (Inr True, [], reg)
                  else write_to_storage env mode path docData docRead reg)"

definition dbToStorageWithSpecificRev ::
  "collaborators \<Rightarrow> file_ref option \<Rightarrow> string \<Rightarrow> bool \<Rightarrow> sameChangePairs
     \<Rightarrow> (error + bool) \<times> action list \<times> sameChangePairs" where
  "dbToStorageWithSpecificRev env info revision force reg =
     (case resolve_file env info of
        None \<Rightarrow> (Inr False, [], reg)
      | Some f \<Rightarrow>
          (case fetchEntryMeta env (StubRef f) (Some revision) True of
             None \<Rightarrow> (Inr False, [], reg)
           | Some docEntry \<Rightarrow> dbToStorage env (MetaOf docEntry) (Some (StubRef f)) force reg))"

subsection \<open>The keys of the path serializer\<close>

text \<open>
  Both entry points run their work under \<open>serialized(key, ...)\<close>. The functions below give
  the key each of them passes, \<open>None\<close> when the entry point returns before it takes the
  lock. The predicates \<open>$$isTargetFile\<close> and \<open>shouldBeIgnored\<close> are parameters.
\<close>

record FileEventItem =
  ev_type :: string
  ev_file :: UXFileInfoStub

definition anyHandlerProcessesFileEvent_lockKey ::
  "(string \<Rightarrow> bool) \<Rightarrow> (string \<Rightarrow> bool) \<Rightarrow> FileEventItem \<Rightarrow> string option" where
  "anyHandlerProcessesFileEvent_lockKey isTargetFile shouldBeIgnored item =
     (let path = ux_path (ev_file item)
      in if \<not> isTargetFile path then None
         else if shouldBeIgnored path then None
         else let lockKey = ''processFileEvent-'' @ path in Some lockKey)"

definition anyProcessReplicatedDoc_lockKey :: "MetaEntry \<Rightarrow> string option" where
  "anyProcessReplicatedDoc_lockKey entry = Some (doc_path entry)"

section \<open>A sample vault\<close>

text \<open>
  A concrete set of collaborators for evaluating the engine: the storage holds the single
  file \<open>note.md\<close>; the document of that path has the winning revision \<open>2-new\<close> and any
  other revision asked for by name carries the content \<open>old\<close>.
\<close>

definition note_stub :: "int \<Rightarrow> UXFileInfoStub" where
  "note_stub mtime =
     \<lparr>ux_path = ''note.md'',
      ux_stat = \<lparr>st_mtime = mtime, st_ctime = 1, st_size = 3\<rparr>,
      ux_isInternal = False, ux_isFolder = False, ux_body = None\<rparr>"

definition note_meta :: "string \<Rightarrow> int \<Rightarrow> MetaEntry" where
  "note_meta revision mtime =
     \<lparr>doc_id = ''note.md'', doc_rev = Some revision, doc_path = ''note.md'',
      doc_mtime = mtime, doc_ctime = 1, doc_deleted = False, doc__deleted = False\<rparr>"

definition note_loaded :: "string \<Rightarrow> int \<Rightarrow> string \<Rightarrow> LoadedEntry" where
  "note_loaded revision mtime content =
     \<lparr>doc_id = ''note.md'', doc_rev = Some revision, doc_path = ''note.md'',
      doc_mtime = mtime, doc_ctime = 1, doc_deleted = False, doc__deleted = False,
      doc_data = [content]\<rparr>"

definition sample_vault ::
  "int \<Rightarrow> string \<Rightarrow> int \<Rightarrow> string \<Rightarrow> string list \<Rightarrow> collaborators" where
  "sample_vault storage_mtime storage_content db_mtime db_content conflicts =
     \<lparr>getFileStub = (\<lambda>p. if p = ''note.md'' then Some (note_stub storage_mtime) else None),
      getStub = (\<lambda>p. if p = ''note.md'' then Some (note_stub storage_mtime) else None),
      readStubContent = (\<lambda>f. Some (f\<lparr>ux_body := Some storage_content\<rparr>)),
      writeFileAuto = (\<lambda>path content ctime mtime. True),
      fetchEntryMeta =
        (\<lambda>r revision includeDeleted.
           case revision of
             None \<Rightarrow> Some (note_meta ''2-new'' db_mtime)
           | Some named \<Rightarrow> Some (note_meta named db_mtime)),
      fetchEntry = (\<lambda>r revision a b. Some (note_loaded ''2-new'' db_mtime db_content)),
      fetchEntryFromMeta =
        (\<lambda>m. if doc_rev m = Some ''2-new''
              then Some (note_loaded ''2-new'' (doc_mtime m) db_content)
              else Some (note_loaded ''1-old'' (doc_mtime m) ''old'')),
      getConflictedRevs = (\<lambda>r. conflicts),
      db_delete = (\<lambda>r revision. Some True),
      writeDocumentsIfConflicted = False,
      stripAllPrefixes = (\<lambda>p. p),
      id2path_base = (\<lambda>ident entry. doc_path entry),
      normalizePath = (\<lambda>p. p),
      readContent = (\<lambda>d. concat (doc_data d)),
      isDocContentSame = (\<lambda>a b. b = Some a)\<rparr>"

section \<open>Properties of the freshness comparator\<close>

lemma ToInt32_idem:
  assumes "- 2147483648 \<le> n" and "n < 2147483648"
  shows "ToInt32 n = n"
  using assms by (simp add: ToInt32_def)

lemma double_tilde_quotient_in_range:
  assumes "0 \<le> t" and "t < 4294967296000"
  shows "double_tilde_quotient t resolution = t div 2000"
proof -
  have "t div 2000 < 2147483648" using assms by linarith
  moreover have "0 \<le> t div 2000" using assms by simp
  ultimately show ?thesis
    using assms by (simp add: double_tilde_quotient_def integer_part_of_quotient_def
        resolution_def ToInt32_idem)
qed

text \<open>
  C10. \<open>compareMTime\<close> is total and has no failure mode: for every pair of timestamps it
  returns one of the three verdicts, and the trailing \<open>throw new Error("Unexpected error")\<close>
  is never reached.
\<close>

theorem compareMTime_total:
  "compareMTime a b \<noteq> Inl Unexpected_error
   \<and> (compareMTime a b = Inr EVEN \<or> compareMTime a b = Inr BASE_IS_NEW
        \<or> compareMTime a b = Inr TARGET_IS_NEW)"
  by (simp add: compareMTime_def Let_def)

text \<open>
  C6 (as amended). For all timestamps \<open>a\<close> and \<open>b\<close> from 0 up to, but excluding,
  4294967296000 (where the quotient by 2000 still fits a signed 32-bit integer): if
  \<open>\<lfloor>a / 2000\<rfloor> = \<lfloor>b / 2000\<rfloor>\<close> then \<open>compareMTime a b\<close> is \<open>EVEN\<close>; and if the bucket of \<open>a\<close>
  is the larger one then \<open>compareMTime a b\<close> is \<open>BASE_IS_NEW\<close> and \<open>compareMTime b a\<close> is
  \<open>TARGET_IS_NEW\<close>.
\<close>

theorem compareMTime_buckets:
  assumes "0 \<le> a" and "a < 4294967296000" and "0 \<le> b" and "b < 4294967296000"
  shows "(a div 2000 = b div 2000 \<longrightarrow> compareMTime a b = Inr EVEN)
       \<and> (b div 2000 < a div 2000 \<longrightarrow>
            compareMTime a b = Inr BASE_IS_NEW \<and> compareMTime b a = Inr TARGET_IS_NEW)"
proof -
  have ta: "double_tilde_quotient a resolution = a div 2000"
    using assms(1,2) by (rule double_tilde_quotient_in_range)
  have tb: "double_tilde_quotient b resolution = b div 2000"
    using assms(3,4) by (rule double_tilde_quotient_in_range)
  show ?thesis
    unfolding compareMTime_def Let_def ta tb by (simp add: resolution_def)
qed

theorem compareMTime_buckets_witness:
  "(0::int) \<le> 5000 \<and> (5000::int) < 4294967296000 \<and> (0::int) \<le> 1000
   \<and> (1000::int) < 4294967296000 \<and> (1000::int) div 2000 < 5000 div 2000
   \<and> (4100::int) div 2000 = 5000 div 2000
   \<and> compareMTime 5000 4100 = Inr EVEN
   \<and> compareMTime 5000 1000 = Inr BASE_IS_NEW \<and> compareMTime 1000 5000 = Inr TARGET_IS_NEW"
  using compareMTime_buckets [of 5000 1000] compareMTime_buckets [of 5000 4100]
  by simp

text \<open>
  The claim as stated, for all timestamps, fails on both sides of that range. Above it
  the quotient leaves the signed 32-bit range: 4294967296000 lies in bucket \<open>2 ^ 31\<close>,
  which \<open>~~\<close> wraps to \<open>- 2 ^ 31\<close>, so the larger timestamp is judged the older one. Below
  zero \<open>~~\<close> rounds towards zero, not down: \<open>-2000\<close> and \<open>-1999\<close> share the bucket
  \<open>\<lfloor>t / 2000\<rfloor> = -1\<close> and are still told apart.
\<close>

theorem compareMTime_buckets_counterexample:
  "(0::int) div 2000 < 4294967296000 div 2000
   \<and> compareMTime 4294967296000 0 = Inr TARGET_IS_NEW
   \<and> compareMTime 4294967296000 0 \<noteq> Inr BASE_IS_NEW
   \<and> (- 2000 :: int) div 2000 = (- 1999) div 2000
   \<and> compareMTime (- 2000) (- 1999) = Inr TARGET_IS_NEW
   \<and> compareMTime (- 2000) (- 1999) \<noteq> Inr EVEN"
  by (simp add: compareMTime_def double_tilde_quotient_def integer_part_of_quotient_def
      ToInt32_def resolution_def)

text \<open>
  C8. \<open>compareFileFreshness\<close> resolves absence: both sides absent is \<open>EVEN\<close>, an absent
  base with a present target is \<open>TARGET_IS_NEW\<close>, and a present base with an absent target
  is \<open>BASE_IS_NEW\<close>, whatever the registry holds.
\<close>

theorem compareFileFreshness_absent:
  "compareFileFreshness strip reg None None = Inr EVEN
   \<and> compareFileFreshness strip reg None (Some target) = Inr TARGET_IS_NEW
   \<and> compareFileFreshness strip reg (Some base) None = Inr BASE_IS_NEW"
  by (simp add: compareFileFreshness_def)

section \<open>Properties of the equivalence tracker\<close>

lemma set_fold_add_new:
  "set (fold (\<lambda>x acc. if x \<in> set acc then acc else acc @ [x]) xs ys) = set ys \<union> set xs"
  by (induction xs arbitrary: ys) auto

lemma set_new_Set: "set (new_Set xs) = set xs"
  by (simp add: new_Set_def set_fold_add_new)

lemma isMarkedAsSameChanges_iff:
  "isMarkedAsSameChanges strip file mtimes reg = Some EVEN
     \<longleftrightarrow> set mtimes \<subseteq> set (sameChangePairs_get reg (getKey strip file))"
  by (auto simp: isMarkedAsSameChanges_def Let_def list_all_iff)

lemma isMarkedAsSameChanges_None_iff:
  "isMarkedAsSameChanges strip file mtimes reg = None
     \<longleftrightarrow> \<not> set mtimes \<subseteq> set (sameChangePairs_get reg (getKey strip file))"
  by (auto simp: isMarkedAsSameChanges_def Let_def list_all_iff)

lemma markChangesAreSame_same:
  "markChangesAreSame strip file t t reg = (Some True, reg)"
  by (simp add: markChangesAreSame_def)

lemma markChangesAreSame_union:
  assumes "t1 \<noteq> t2"
    and "t1 \<in> set (sameChangePairs_get reg (getKey strip file))
         \<or> t2 \<in> set (sameChangePairs_get reg (getKey strip file))"
  shows "snd (markChangesAreSame strip file t1 t2 reg) =
           reg(getKey strip file \<mapsto>
                 new_Set (sameChangePairs_get reg (getKey strip file) @ [t1, t2]))"
  using assms by (auto simp: markChangesAreSame_def Let_def list_ex_iff)

lemma markChangesAreSame_fresh:
  assumes "t1 \<noteq> t2"
    and "t1 \<notin> set (sameChangePairs_get reg (getKey strip file))"
    and "t2 \<notin> set (sameChangePairs_get reg (getKey strip file))"
  shows "snd (markChangesAreSame strip file t1 t2 reg) = reg(getKey strip file \<mapsto> [t1, t2])"
  using assms by (auto simp: markChangesAreSame_def Let_def list_ex_iff)

lemma sameChangePairs_get_update:
  "sameChangePairs_get (reg(k \<mapsto> v)) k' = (if k' = k then v else sameChangePairs_get reg k')"
  by (simp add: sameChangePairs_get_def)

lemma markChangesAreSame_pairs:
  assumes "t1 \<noteq> t2"
  shows "set (sameChangePairs_get (snd (markChangesAreSame strip file t1 t2 reg))
                (getKey strip file)) =
           (if t1 \<in> set (sameChangePairs_get reg (getKey strip file))
               \<or> t2 \<in> set (sameChangePairs_get reg (getKey strip file))
            then set (sameChangePairs_get reg (getKey strip file)) \<union> {t1, t2}
            else {t1, t2})"
proof (cases "t1 \<in> set (sameChangePairs_get reg (getKey strip file))
               \<or> t2 \<in> set (sameChangePairs_get reg (getKey strip file))")
  case True
  show ?thesis
    unfolding markChangesAreSame_union [OF assms True]
    using True by (simp add: sameChangePairs_get_update set_new_Set)
next
  case False
  then have n1: "t1 \<notin> set (sameChangePairs_get reg (getKey strip file))"
    and n2: "t2 \<notin> set (sameChangePairs_get reg (getKey strip file))"
    by simp_all
  show ?thesis
    unfolding markChangesAreSame_fresh [OF assms n1 n2]
    using n1 n2 by (simp add: sameChangePairs_get_update)
qed

text \<open>
  C7. The equivalence tracker merges transitively. \<open>markChangesAreSame\<close> leaves the
  registry as it is when both timestamps are equal. Otherwise, when the set registered
  for the key meets \<open>{t1, t2}\<close>, the pair is added to that set; when it does not, the
  two-element list \<open>[t1, t2]\<close> replaces whatever was registered. Hence, from any registry,
  after marking 100 and 205 the query \<open>[100, 205]\<close> answers \<open>EVEN\<close>, and after then marking
  205 and 9999 both \<open>[100, 205]\<close> and \<open>[100, 9999]\<close> answer \<open>EVEN\<close>.
\<close>

theorem markChangesAreSame_transitive_merge:
  "markChangesAreSame strip f t t reg = (Some True, reg)
   \<and> (t1 \<noteq> t2 \<and> set (sameChangePairs_get reg (getKey strip f)) \<inter> {t1, t2} \<noteq> {} \<longrightarrow>
        set (sameChangePairs_get (snd (markChangesAreSame strip f t1 t2 reg)) (getKey strip f))
          = set (sameChangePairs_get reg (getKey strip f)) \<union> {t1, t2})
   \<and> (t1 \<noteq> t2 \<and> set (sameChangePairs_get reg (getKey strip f)) \<inter> {t1, t2} = {} \<longrightarrow>
        snd (markChangesAreSame strip f t1 t2 reg) = reg(getKey strip f \<mapsto> [t1, t2]))
   \<and> isMarkedAsSameChanges strip f [100, 205]
        (snd (markChangesAreSame strip f 100 205 reg)) = Some EVEN
   \<and> isMarkedAsSameChanges strip f [100, 205]
        (snd (markChangesAreSame strip f 205 9999
           (snd (markChangesAreSame strip f 100 205 reg)))) = Some EVEN
   \<and> isMarkedAsSameChanges strip f [100, 9999]
        (snd (markChangesAreSame strip f 205 9999
           (snd (markChangesAreSame strip f 100 205 reg)))) = Some EVEN"
proof -
  let ?k = "getKey strip f"
  let ?r1 = "snd (markChangesAreSame strip f 100 205 reg)"
  let ?r2 = "snd (markChangesAreSame strip f 205 9999 ?r1)"
  have union: "set (sameChangePairs_get (snd (markChangesAreSame strip f t1 t2 reg)) ?k)
                 = set (sameChangePairs_get reg ?k) \<union> {t1, t2}"
    if "t1 \<noteq> t2" and "set (sameChangePairs_get reg ?k) \<inter> {t1, t2} \<noteq> {}"
    using that markChangesAreSame_pairs [OF that(1), of strip f reg] by auto
  have fresh: "snd (markChangesAreSame strip f t1 t2 reg) = reg(?k \<mapsto> [t1, t2])"
    if "t1 \<noteq> t2" and "set (sameChangePairs_get reg ?k) \<inter> {t1, t2} = {}"
    using that by (intro markChangesAreSame_fresh) auto
  have first: "{100, 205} \<subseteq> set (sameChangePairs_get ?r1 ?k)"
    using markChangesAreSame_pairs [of 100 205 strip f reg] by (auto split: if_splits)
  then have "205 \<in> set (sameChangePairs_get ?r1 ?k)"
    by simp
  then have "set (sameChangePairs_get ?r2 ?k) = set (sameChangePairs_get ?r1 ?k) \<union> {205, 9999}"
    using markChangesAreSame_pairs [of 205 9999 strip f ?r1] by simp
  with first have second: "{100, 205, 9999} \<subseteq> set (sameChangePairs_get ?r2 ?k)"
    by auto
  have q1: "isMarkedAsSameChanges strip f [100, 205] ?r1 = Some EVEN"
    using first by (simp add: isMarkedAsSameChanges_iff)
  have q2: "isMarkedAsSameChanges strip f [100, 205] ?r2 = Some EVEN"
    using second by (simp add: isMarkedAsSameChanges_iff)
  have q3: "isMarkedAsSameChanges strip f [100, 9999] ?r2 = Some EVEN"
    using second by (simp add: isMarkedAsSameChanges_iff)
  show ?thesis
    using union fresh q1 q2 q3 by (simp add: markChangesAreSame_same)
qed

theorem markChangesAreSame_transitive_merge_witness:
  "markChangesAreSame (\<lambda>p. p) (Path ''note.md'') 100 100 (Map.empty(''note.md'' \<mapsto> [100, 205]))
     = (Some True, Map.empty(''note.md'' \<mapsto> [100, 205]))
   \<and> set (sameChangePairs_get (Map.empty(''note.md'' \<mapsto> [100, 205])) ''note.md'') \<inter> {205, 9999} \<noteq> {}
   \<and> set (sameChangePairs_get
            (snd (markChangesAreSame (\<lambda>p. p) (Path ''note.md'') 205 9999
                    (Map.empty(''note.md'' \<mapsto> [100, 205])))) ''note.md'') = {100, 205, 9999}
   \<and> set (sameChangePairs_get (Map.empty(''note.md'' \<mapsto> [100, 205])) ''note.md'') \<inter> {7, 8} = {}
   \<and> snd (markChangesAreSame (\<lambda>p. p) (Path ''note.md'') 7 8
             (Map.empty(''note.md'' \<mapsto> [100, 205]))) = Map.empty(''note.md'' \<mapsto> [7, 8])
   \<and> isMarkedAsSameChanges (\<lambda>p. p) (Path ''note.md'') [100, 9999]
        (snd (markChangesAreSame (\<lambda>p. p) (Path ''note.md'') 205 9999
           (snd (markChangesAreSame (\<lambda>p. p) (Path ''note.md'') 100 205 Map.empty)))) = Some EVEN"
  using markChangesAreSame_transitive_merge
          [where strip = "\<lambda>p. p" and f = "Path ''note.md''" and t = 100
             and ?t1.0 = 205 and ?t2.0 = 9999 and reg = "Map.empty(''note.md'' \<mapsto> [100, 205])"]
        markChangesAreSame_transitive_merge
          [where strip = "\<lambda>p. p" and f = "Path ''note.md''" and t = 100
             and ?t1.0 = 7 and ?t2.0 = 8 and reg = "Map.empty(''note.md'' \<mapsto> [100, 205])"]
        markChangesAreSame_transitive_merge
          [where strip = "\<lambda>p. p" and f = "Path ''note.md''" and t = 100
             and ?t1.0 = 7 and ?t2.0 = 8 and reg = "Map.empty"]
  by (simp add: getKey_def sameChangePairs_get_def insert_commute)

lemma markChangesAreSame_other_key:
  assumes "k \<noteq> getKey strip g"
  shows "sameChangePairs_get (snd (markChangesAreSame strip g t1 t2 reg)) k
           = sameChangePairs_get reg k"
  using assms by (simp add: markChangesAreSame_def Let_def sameChangePairs_get_def)

text \<open>
  C9 (as amended). After \<open>unmarkChanges\<close> for a path, every query
  \<open>isMarkedAsSameChanges\<close> for that path with a non-empty list of timestamps falls through
  (it returns \<open>undefined\<close>, never \<open>EVEN\<close>), and it still does after a pair has been
  registered for a different path; only a registration for the path itself can change
  the answer.
\<close>

theorem unmarkChanges_forgets:
  assumes "mtimes \<noteq> []" and "getKey strip f' = getKey strip f"
  shows "isMarkedAsSameChanges strip f' mtimes (unmarkChanges strip f reg) = None
       \<and> (getKey strip g \<noteq> getKey strip f \<longrightarrow>
            isMarkedAsSameChanges strip f' mtimes
              (snd (markChangesAreSame strip g t1 t2 (unmarkChanges strip f reg))) = None)"
proof -
  have empty: "sameChangePairs_get (unmarkChanges strip f reg) (getKey strip f') = []"
    using assms(2) by (simp add: unmarkChanges_def sameChangePairs_get_def)
  have nonempty: "set mtimes \<noteq> {}"
    using assms(1) by simp
  have "sameChangePairs_get
          (snd (markChangesAreSame strip g t1 t2 (unmarkChanges strip f reg))) (getKey strip f')
          = []"
    if "getKey strip g \<noteq> getKey strip f"
    using that assms(2) empty by (simp add: markChangesAreSame_other_key)
  with empty nonempty show ?thesis
    by (simp add: isMarkedAsSameChanges_None_iff)
qed

theorem unmarkChanges_forgets_witness:
  "[100, 205] \<noteq> ([] :: int list)
   \<and> getKey (\<lambda>p. p) (Path ''note.md'') = getKey (\<lambda>p. p) (Path ''note.md'')
   \<and> isMarkedAsSameChanges (\<lambda>p. p) (Path ''note.md'') [100, 205]
        (snd (markChangesAreSame (\<lambda>p. p) (Path ''note.md'') 100 205 Map.empty)) = Some EVEN
   \<and> isMarkedAsSameChanges (\<lambda>p. p) (Path ''note.md'') [100, 205]
        (unmarkChanges (\<lambda>p. p) (Path ''note.md'')
           (snd (markChangesAreSame (\<lambda>p. p) (Path ''note.md'') 100 205 Map.empty))) = None
   \<and> getKey (\<lambda>p. p) (Path ''other.md'') \<noteq> getKey (\<lambda>p. p) (Path ''note.md'')
   \<and> isMarkedAsSameChanges (\<lambda>p. p) (Path ''note.md'') [100, 205]
        (snd (markChangesAreSame (\<lambda>p. p) (Path ''other.md'') 100 205
           (unmarkChanges (\<lambda>p. p) (Path ''note.md'')
              (snd (markChangesAreSame (\<lambda>p. p) (Path ''note.md'') 100 205 Map.empty)))))
       = None"
  using unmarkChanges_forgets
          [where mtimes = "[100, 205]" and strip = "\<lambda>p. p" and f = "Path ''note.md''"
             and f' = "Path ''note.md''" and g = "Path ''other.md''"
             and ?t1.0 = 100 and ?t2.0 = 205
             and reg = "snd (markChangesAreSame (\<lambda>p. p) (Path ''note.md'') 100 205 Map.empty)"]
  by (simp add: isMarkedAsSameChanges_def markChangesAreSame_def getKey_def
      sameChangePairs_get_def)

text \<open>
  The claim as stated, for any list of timestamps, fails on the empty list: \<open>every\<close> holds
  of no elements, so the query answers \<open>EVEN\<close> although the path has just been unmarked.
\<close>

theorem unmarkChanges_forgets_counterexample:
  "isMarkedAsSameChanges (\<lambda>p. p) (Path ''note.md'') []
     (unmarkChanges (\<lambda>p. p) (Path ''note.md'') (Map.empty(''note.md'' \<mapsto> [100, 205])))
     = Some EVEN"
  by (simp add: isMarkedAsSameChanges_def)

section \<open>Properties of the reconciliation engine\<close>

lemmas sample_defs = sample_vault_def note_stub_def note_meta_def note_loaded_def

lemmas comparator_defs =
  compareFileFreshness_def compareMTime_def double_tilde_quotient_def
  integer_part_of_quotient_def ToInt32_def resolution_def isMarkedAsSameChanges_def
  markChangesAreSame_def sameChangePairs_get_def getKey_def path_of_def

lemmas engine_defs =
  dbToStorage_def dbToStorageWithSpecificRev_def deleteFileFromDB_def write_to_storage_def
  readFileFromStub_def resolve_file_def getPath_def id2path_def Let_def

lemma getPath_sample_vault:
  "getPath (sample_vault sm sc dm dc cs) (note_meta r m) = ''note.md''"
  by (simp add: getPath_def id2path_def sample_vault_def note_meta_def)

lemma dbToStorage_by_path:
  "dbToStorage env (MetaOf e) info force reg = dbToStorage env (PathOf (doc_path e)) info force reg"
  by (simp add: dbToStorage_def)

lemma dbToStorage_written_content:
  assumes "WriteFileAuto p d c m \<in> set (fst (snd (dbToStorage env (PathOf q) info force reg)))"
  shows "\<exists>winning docRead.
           fetchEntryMeta env (PathRef q) None True = Some winning
         \<and> fetchEntryFromMeta env winning = Some docRead
         \<and> p = getPath env winning \<and> d = readContent env docRead"
  using assms
  by (auto simp: dbToStorage_def Let_def write_to_storage_def
      split: option.splits if_splits sum.splits)

text \<open>
  C1. Whenever the document resolved for the path has at least one conflicting revision
  and \<open>writeDocumentsIfConflicted\<close> is off, \<open>dbToStorage\<close> queues the path for the external
  conflict check, sends no request that changes the storage, leaves the registry alone
  and returns \<open>true\<close>.
\<close>

theorem dbToStorage_conflicted_defers:
  assumes "fetchEntryMeta env (PathRef (case entryInfo of PathOf p \<Rightarrow> p | MetaOf e \<Rightarrow> doc_path e))
             None True = Some docEntry"
    and "getConflictedRevs env (PathRef (getPath env docEntry)) \<noteq> []"
    and "\<not> writeDocumentsIfConflicted env"
  shows "dbToStorage env entryInfo info force reg =
           (Inr True, [QueueConflictCheckIfOpen (getPath env docEntry)], reg)
         \<and> list_all (\<lambda>a. \<not> mutates_storage a)
             (fst (snd (dbToStorage env entryInfo info force reg)))"
proof -
  have "dbToStorage env entryInfo info force reg =
           (Inr True, [QueueConflictCheckIfOpen (getPath env docEntry)], reg)"
    using assms by (cases entryInfo) (simp_all add: dbToStorage_def Let_def)
  then show ?thesis
    by (simp add: mutates_storage_def)
qed

theorem dbToStorage_conflicted_defers_witness:
  "fetchEntryMeta (sample_vault 1000 ''old'' 5000 ''new'' [''3-theirs''])
       (PathRef ''note.md'') None True = Some (note_meta ''2-new'' 5000)
   \<and> getConflictedRevs (sample_vault 1000 ''old'' 5000 ''new'' [''3-theirs''])
        (PathRef ''note.md'') \<noteq> []
   \<and> \<not> writeDocumentsIfConflicted (sample_vault 1000 ''old'' 5000 ''new'' [''3-theirs''])
   \<and> dbToStorage (sample_vault 1000 ''old'' 5000 ''new'' [''3-theirs''])
        (PathOf ''note.md'') (Some (PathRef ''note.md'')) False Map.empty
       = (Inr True, [QueueConflictCheckIfOpen ''note.md''], Map.empty)"
  using dbToStorage_conflicted_defers
          [where env = "sample_vault 1000 ''old'' 5000 ''new'' [''3-theirs'']"
             and entryInfo = "PathOf ''note.md''" and docEntry = "note_meta ''2-new'' 5000"
             and info = "Some (PathRef ''note.md'')" and force = False and reg = Map.empty]
  by (simp add: getPath_sample_vault) (simp add: sample_vault_def)

text \<open>
  C2. The claim: with the storage file present and \<open>force\<close> off, timestamps that compare
  \<open>EVEN\<close> lead to a comparison of the contents (equal contents register the timestamps
  and nothing is written, different contents are written), and timestamps that differ
  lead to the write with no comparison. The code has the test the other way round
  (\<open>if (shouldApplied)\<close> where \<open>storeFileToDB\<close> has \<open>if (!shouldApplied)\<close>, under the comment
  "2. if not, the content should be checked"). The evaluation below shows both halves:
  with timestamps 1000 and 1500 in one bucket and the contents \<open>old\<close> and \<open>new\<close>, nothing
  is read, compared or written; with timestamps 1000 and 5000 and equal contents, the
  contents are compared, the timestamps are registered and nothing is written.
\<close>

theorem dbToStorage_content_check_inverted:
  "compareFileFreshness (\<lambda>p. p) Map.empty (Some (File (note_stub 1000)))
      (Some (Entry (note_meta ''2-new'' 1500))) = Inr EVEN
   \<and> readContent (sample_vault 1000 ''old'' 1500 ''new'' []) (note_loaded ''2-new'' 1500 ''new'')
        = ''new''
   \<and> readFileFromStub (sample_vault 1000 ''old'' 1500 ''new'' []) (note_stub 1000)
        = Inr ((note_stub 1000)\<lparr>ux_body := Some ''old''\<rparr>)
   \<and> dbToStorage (sample_vault 1000 ''old'' 1500 ''new'' []) (PathOf ''note.md'')
        (Some (PathRef ''note.md'')) False Map.empty = (Inr True, [], Map.empty)
   \<and> compareFileFreshness (\<lambda>p. p) Map.empty (Some (File (note_stub 1000)))
        (Some (Entry (note_meta ''2-new'' 5000))) = Inr TARGET_IS_NEW
   \<and> dbToStorage (sample_vault 1000 ''same'' 5000 ''same'' []) (PathOf ''note.md'')
        (Some (PathRef ''note.md'')) False Map.empty
       = (Inr True, [], Map.empty(''note.md'' \<mapsto> [5000, 1000]))"
  by (simp add: engine_defs comparator_defs sample_defs MetaEntry.truncate_def)

text \<open>
  C3 (as amended). For every path, the file-event entry point serializes under the key
  \<open>processFileEvent-\<close> followed by the path (when it takes the lock at all), the
  replication intake serializes under the path of the document itself, and for a
  document whose path is that of the file the two keys are different.
\<close>

theorem lock_keys_differ:
  assumes "doc_path entry = ux_path (ev_file item)"
  shows "anyProcessReplicatedDoc_lockKey entry = Some (doc_path entry)
       \<and> (isTargetFile (ux_path (ev_file item)) \<and> \<not> shouldBeIgnored (ux_path (ev_file item)) \<longrightarrow>
            anyHandlerProcessesFileEvent_lockKey isTargetFile shouldBeIgnored item
              = Some (''processFileEvent-'' @ ux_path (ev_file item)))
       \<and> anyHandlerProcessesFileEvent_lockKey isTargetFile shouldBeIgnored item
            \<noteq> anyProcessReplicatedDoc_lockKey entry"
proof -
  have "''processFileEvent-'' @ q \<noteq> q" for q :: string
  proof
    assume "''processFileEvent-'' @ q = q"
    then have "length (''processFileEvent-'' @ q) = length q"
      by simp
    then show False
      by simp
  qed
  then show ?thesis
    using assms
    by (simp add: anyHandlerProcessesFileEvent_lockKey_def anyProcessReplicatedDoc_lockKey_def
        Let_def)
qed

theorem lock_keys_differ_witness:
  "doc_path (note_meta ''2-new'' 1000) = ux_path (ev_file \<lparr>ev_type = ''CHANGED'', ev_file = note_stub 1000\<rparr>)
   \<and> anyProcessReplicatedDoc_lockKey (note_meta ''2-new'' 1000) = Some ''note.md''
   \<and> anyHandlerProcessesFileEvent_lockKey (\<lambda>p. True) (\<lambda>p. False)
        \<lparr>ev_type = ''CHANGED'', ev_file = note_stub 1000\<rparr> = Some ''processFileEvent-note.md''"
  using lock_keys_differ
          [where entry = "note_meta ''2-new'' 1000"
             and item = "\<lparr>ev_type = ''CHANGED'', ev_file = note_stub 1000\<rparr>"
             and isTargetFile = "\<lambda>p. True" and shouldBeIgnored = "\<lambda>p. False"]
  by (simp add: note_meta_def note_stub_def)

text \<open>
  The claim as stated, that both entry points compute the same key for the same path,
  fails for \<open>note.md\<close>.
\<close>

theorem lock_keys_equal_counterexample:
  "doc_path (note_meta ''2-new'' 1000) = ux_path (note_stub 1000)
   \<and> anyHandlerProcessesFileEvent_lockKey (\<lambda>p. True) (\<lambda>p. False)
        \<lparr>ev_type = ''CHANGED'', ev_file = note_stub 1000\<rparr>
      \<noteq> anyProcessReplicatedDoc_lockKey (note_meta ''2-new'' 1000)"
  by (simp add: anyHandlerProcessesFileEvent_lockKey_def anyProcessReplicatedDoc_lockKey_def
      note_meta_def note_stub_def)

text \<open>
  C4. For a storage file that resolves and is not internal, \<open>deleteFileFromDB\<close> is
  asymmetric: when the live document has conflicting revisions it asks the database to
  delete with the revision \<open>entry._rev\<close>; when it has none it asks for the deletion of the
  document with no revision; and when the document is absent or flagged deleted it
  returns \<open>false\<close> and asks for nothing.
\<close>

theorem deleteFileFromDB_asymmetric:
  assumes "resolve_file env (Some info) = Some f" and "\<not> ux_isInternal f"
  shows "(fetchEntry env (StubRef f) None True True = Some entry
            \<and> \<not> doc_deleted entry \<and> \<not> doc__deleted entry
            \<and> getConflictedRevs env (StubRef f) \<noteq> [] \<longrightarrow>
          deleteFileFromDB env info =
            (db_delete env (StubRef f) (doc_rev entry), [DbDelete (StubRef f) (doc_rev entry)]))
       \<and> (fetchEntry env (StubRef f) None True True = Some entry
            \<and> \<not> doc_deleted entry \<and> \<not> doc__deleted entry
            \<and> getConflictedRevs env (StubRef f) = [] \<longrightarrow>
          deleteFileFromDB env info =
            (db_delete env (StubRef f) None, [DbDelete (StubRef f) None]))
       \<and> (fetchEntry env (StubRef f) None True True = None
            \<or> (fetchEntry env (StubRef f) None True True = Some entry
                 \<and> (doc_deleted entry \<or> doc__deleted entry)) \<longrightarrow>
          deleteFileFromDB env info = (Some False, []))"
  using assms by (auto simp: deleteFileFromDB_def Let_def)

theorem deleteFileFromDB_asymmetric_witness:
  "resolve_file (sample_vault 1000 ''mine'' 5000 ''new'' [''3-theirs'']) (Some (PathRef ''note.md''))
     = Some (note_stub 1000)
   \<and> \<not> ux_isInternal (note_stub 1000)
   \<and> fetchEntry (sample_vault 1000 ''mine'' 5000 ''new'' [''3-theirs''])
        (StubRef (note_stub 1000)) None True True = Some (note_loaded ''2-new'' 5000 ''new'')
   \<and> \<not> doc_deleted (note_loaded ''2-new'' 5000 ''new'')
   \<and> \<not> doc__deleted (note_loaded ''2-new'' 5000 ''new'')
   \<and> getConflictedRevs (sample_vault 1000 ''mine'' 5000 ''new'' [''3-theirs''])
        (StubRef (note_stub 1000)) \<noteq> []
   \<and> deleteFileFromDB (sample_vault 1000 ''mine'' 5000 ''new'' [''3-theirs'']) (PathRef ''note.md'')
       = (Some True, [DbDelete (StubRef (note_stub 1000)) (Some ''2-new'')])
   \<and> deleteFileFromDB (sample_vault 1000 ''mine'' 5000 ''new'' []) (PathRef ''note.md'')
       = (Some True, [DbDelete (StubRef (note_stub 1000)) None])
   \<and> deleteFileFromDB
        ((sample_vault 1000 ''mine'' 5000 ''new'' [])\<lparr>fetchEntry := \<lambda>r revision a b. None\<rparr>)
        (PathRef ''note.md'')
       = (Some False, [])"
  using deleteFileFromDB_asymmetric
          [where env = "sample_vault 1000 ''mine'' 5000 ''new'' [''3-theirs'']"
             and info = "PathRef ''note.md''" and f = "note_stub 1000"
             and entry = "note_loaded ''2-new'' 5000 ''new''"]
        deleteFileFromDB_asymmetric
          [where env = "sample_vault 1000 ''mine'' 5000 ''new'' []"
             and info = "PathRef ''note.md''" and f = "note_stub 1000"
             and entry = "note_loaded ''2-new'' 5000 ''new''"]
        deleteFileFromDB_asymmetric
          [where env = "(sample_vault 1000 ''mine'' 5000 ''new'' [])\<lparr>fetchEntry := \<lambda>r revision a b. None\<rparr>"
             and info = "PathRef ''note.md''" and f = "note_stub 1000"
             and entry = "note_loaded ''2-new'' 5000 ''new''"]
  by (simp add: resolve_file_def sample_defs)

text \<open>
  C5. \<open>dbToStorage\<close> resolves the document again by path with no revision: handing it a
  \<open>MetaEntry\<close> is the same as handing it that entry's path, so two entries of one path
  that differ in their revision give the same run. Consequently, whatever content
  \<open>dbToStorageWithSpecificRev\<close> writes for a revision is the content of the entry that the
  lookup by path with no revision returns (the winning revision), written to that
  entry's path.
\<close>

theorem dbToStorageWithSpecificRev_writes_winning_revision:
  "dbToStorage env (MetaOf e) info force reg
     = dbToStorage env (PathOf (doc_path e)) info force reg
   \<and> (doc_path e1 = doc_path e2 \<longrightarrow>
        dbToStorage env (MetaOf e1) info force reg = dbToStorage env (MetaOf e2) info force reg)
   \<and> (WriteFileAuto p d c m
         \<in> set (fst (snd (dbToStorageWithSpecificRev env info revision force reg))) \<longrightarrow>
       (\<exists>f docEntry winning docRead.
           resolve_file env info = Some f
         \<and> fetchEntryMeta env (StubRef f) (Some revision) True = Some docEntry
         \<and> fetchEntryMeta env (PathRef (doc_path docEntry)) None True = Some winning
         \<and> fetchEntryFromMeta env winning = Some docRead
         \<and> p = getPath env winning \<and> d = readContent env docRead))"
proof -
  have same: "dbToStorage env (MetaOf e1) info force reg = dbToStorage env (MetaOf e2) info force reg"
    if "doc_path e1 = doc_path e2"
    using that by (simp add: dbToStorage_by_path)
  have written: "\<exists>f docEntry winning docRead.
           resolve_file env info = Some f
         \<and> fetchEntryMeta env (StubRef f) (Some revision) True = Some docEntry
         \<and> fetchEntryMeta env (PathRef (doc_path docEntry)) None True = Some winning
         \<and> fetchEntryFromMeta env winning = Some docRead
         \<and> p = getPath env winning \<and> d = readContent env docRead"
    if w: "WriteFileAuto p d c m
             \<in> set (fst (snd (dbToStorageWithSpecificRev env info revision force reg)))"
  proof (cases "resolve_file env info")
    case None
    with w show ?thesis
      by (simp add: dbToStorageWithSpecificRev_def)
  next
    case (Some f)
    show ?thesis
    proof (cases "fetchEntryMeta env (StubRef f) (Some revision) True")
      case None
      with w Some show ?thesis
        by (simp add: dbToStorageWithSpecificRev_def)
    next
      case (Some docEntry)
      with w \<open>resolve_file env info = Some f\<close>
      have "WriteFileAuto p d c m
              \<in> set (fst (snd (dbToStorage env (PathOf (doc_path docEntry))
                                 (Some (StubRef f)) force reg)))"
        by (simp add: dbToStorageWithSpecificRev_def dbToStorage_by_path)
      from dbToStorage_written_content [OF this] Some \<open>resolve_file env info = Some f\<close>
      show ?thesis
        by blast
    qed
  qed
  show ?thesis
    using same written by (simp add: dbToStorage_by_path)
qed

theorem dbToStorageWithSpecificRev_writes_winning_revision_witness:
  "doc_path (note_meta ''1-old'' 5000) = doc_path (note_meta ''2-new'' 5000)
   \<and> WriteFileAuto ''note.md'' ''new'' 1 5000
       \<in> set (fst (snd (dbToStorageWithSpecificRev (sample_vault 1000 ''mine'' 5000 ''new'' [])
                          (Some (PathRef ''note.md'')) ''1-old'' True Map.empty)))
   \<and> fetchEntryMeta (sample_vault 1000 ''mine'' 5000 ''new'' []) (StubRef (note_stub 1000))
        (Some ''1-old'') True = Some (note_meta ''1-old'' 5000)
   \<and> fetchEntryFromMeta (sample_vault 1000 ''mine'' 5000 ''new'' []) (note_meta ''1-old'' 5000)
        = Some (note_loaded ''1-old'' 5000 ''old'')
   \<and> readContent (sample_vault 1000 ''mine'' 5000 ''new'' []) (note_loaded ''1-old'' 5000 ''old'')
        = ''old''
   \<and> fetchEntryMeta (sample_vault 1000 ''mine'' 5000 ''new'' []) (PathRef ''note.md'') None True
        = Some (note_meta ''2-new'' 5000)
   \<and> fetchEntryFromMeta (sample_vault 1000 ''mine'' 5000 ''new'' []) (note_meta ''2-new'' 5000)
        = Some (note_loaded ''2-new'' 5000 ''new'')
   \<and> readContent (sample_vault 1000 ''mine'' 5000 ''new'' []) (note_loaded ''2-new'' 5000 ''new'')
        = ''new''"
  using dbToStorageWithSpecificRev_writes_winning_revision
          [where env = "sample_vault 1000 ''mine'' 5000 ''new'' []"
             and ?e1.0 = "note_meta ''1-old'' 5000" and ?e2.0 = "note_meta ''2-new'' 5000"
             and info = "Some (PathRef ''note.md'')" and revision = "''1-old''" and force = True
             and reg = Map.empty and p = "''note.md''" and d = "''new''" and c = 1 and m = 5000]
  by (simp add: engine_defs sample_defs)

end
